theory Spec2Isabelle
  imports Main "HOL-Library.Word"
begin

unbundle bit_operations_syntax

section \<open>Vocabulary of go-fuse and of package syscall used by rfs.go\<close>

text \<open>
  \<^verbatim>\<open>fuse.Status\<close> is an \<^verbatim>\<open>int32\<close> holding an errno; \<^verbatim>\<open>fuse.OK\<close> is 0 and
  \<^verbatim>\<open>fuse.EPERM\<close>, \<^verbatim>\<open>fuse.ENOENT\<close>, \<^verbatim>\<open>fuse.ENOTDIR\<close> are the Linux errno values.
  A Go \<^verbatim>\<open>error\<close> is only ever handed to \<^verbatim>\<open>fuse.ToStatus\<close> in rfs.go, so an error
  value is represented by the status \<^verbatim>\<open>fuse.ToStatus\<close> gives for it.
  The specification's PermissionDenied, NotFound and NotADirectory are the
  statuses \<open>EPERM\<close>, \<open>ENOENT\<close> and \<open>ENOTDIR\<close> of the code.
\<close>

type_synonym Status = "32 word"

definition OK :: Status where "OK = 0"
definition EPERM :: Status where "EPERM = 1"
definition ENOENT :: Status where "ENOENT = 2"
definition EIO :: Status where "EIO = 5"
definition ENOTDIR :: Status where "ENOTDIR = 20"

definition Status_Ok :: "Status \<Rightarrow> bool" where
  "Status_Ok code = (code = OK)"

text \<open>File-type and permission bits of \<^verbatim>\<open>syscall\<close> (Linux), and the open flags.\<close>

definition S_IFMT :: "32 word" where "S_IFMT = 0xF000"
definition S_IFDIR :: "32 word" where "S_IFDIR = 0x4000"
definition S_IFREG :: "32 word" where "S_IFREG = 0x8000"
definition S_IXUSR :: "32 word" where "S_IXUSR = 0x40"

definition O_RDONLY :: "32 word" where "O_RDONLY = 0x0"
definition O_WRONLY :: "32 word" where "O_WRONLY = 0x1"
definition O_RDWR :: "32 word" where "O_RDWR = 0x2"
definition O_ACCMODE :: "32 word" where "O_ACCMODE = 0x3"
definition O_TRUNC :: "32 word" where "O_TRUNC = 0x200"

text \<open>
  \<^verbatim>\<open>fuse.Attr\<close>: the attribute record GetAttr returns. The embedded \<^verbatim>\<open>Owner\<close>
  struct is flattened into \<open>Uid\<close> and \<open>Gid\<close>.
\<close>

record Attr =
  Ino :: "64 word"
  Size :: "64 word"
  Blocks :: "64 word"
  Atime :: "64 word"
  Mtime :: "64 word"
  Ctime :: "64 word"
  Atimensec :: "32 word"
  Mtimensec :: "32 word"
  Ctimensec :: "32 word"
  Mode :: "32 word"
  Nlink :: "32 word"
  Uid :: "32 word"
  Gid :: "32 word"
  Rdev :: "32 word"
  Blksize :: "32 word"
  Padding :: "32 word"

definition IsDir :: "Attr \<Rightarrow> bool" where
  "IsDir a = (Mode a AND S_IFMT = S_IFDIR)"

definition IsRegular :: "Attr \<Rightarrow> bool" where
  "IsRegular a = (Mode a AND S_IFMT = S_IFREG)"

text \<open>
  \<^verbatim>\<open>fuse.DirEntry\<close> has the two fields of the unkeyed literal at rfs.go:156, the mode
  first and the name second.
\<close>

record DirEntry =
  EntryMode :: "32 word"
  Name :: string

section \<open>Go standard library: strings.HasSuffix and path.Dir\<close>

definition HasSuffix :: "string \<Rightarrow> string \<Rightarrow> bool" where
  "HasSuffix s suffix =
     (length suffix \<le> length s \<and> drop (length s - length suffix) s = suffix)"

text \<open>\<^verbatim>\<open>strings.Split(s, "/")\<close>: the fields between slashes, empty ones kept.\<close>

fun splitSlash :: "string \<Rightarrow> string list" where
  "splitSlash [] = [[]]"
| "splitSlash (c # cs) =
     (if c = CHR ''/'' then [] # splitSlash cs
      else (case splitSlash cs of [] \<Rightarrow> [[c]] | x # xs \<Rightarrow> (c # x) # xs))"

fun joinSlash :: "string list \<Rightarrow> string" where
  "joinSlash [] = []"
| "joinSlash [x] = x"
| "joinSlash (x # y # ys) = x @ CHR ''/'' # joinSlash (y # ys)"

text \<open>
  One round of the loop of \<^verbatim>\<open>path.Clean\<close>, on path elements instead of bytes: the
  output so far is a list of elements, and \<open>dotdot\<close> counts the leading \<^verbatim>\<open>..\<close>
  elements that a later \<^verbatim>\<open>..\<close> must not remove. An empty element and \<^verbatim>\<open>.\<close> are
  dropped; \<^verbatim>\<open>..\<close> removes the last element when there is one to remove, is
  appended on an unrooted path, and is dropped on a rooted one.
\<close>

fun cleanStep :: "bool \<Rightarrow> string list \<times> nat \<Rightarrow> string \<Rightarrow> string list \<times> nat" where
  "cleanStep rooted (out, dotdot) elem =
     (if elem = [] \<or> elem = ''.'' then (out, dotdot)
      else if elem = ''..'' then
        (if dotdot < length out then (butlast out, dotdot)
         else if rooted then (out, dotdot)
         else (out @ [''..''], Suc dotdot))
      else (out @ [elem], dotdot))"

definition Clean :: "string \<Rightarrow> string" where
  "Clean p =
     (if p = [] then ''.''
      else
        let rooted = (hd p = CHR ''/'');
            out = fst (foldl (cleanStep rooted) ([], 0) (splitSlash p));
            s = (if rooted then ''/'' else []) @ joinSlash out
        in if s = [] then ''.'' else s)"

text \<open>
  \<^verbatim>\<open>path.Dir\<close>: everything up to and including the last slash, cleaned.
\<close>

definition path_Dir :: "string \<Rightarrow> string" where
  "path_Dir p = Clean (rev (dropWhile (\<lambda>c. c \<noteq> CHR ''/'') (rev p)))"

section \<open>The reverse filesystem of rfs.go\<close>

text \<open>
  Modelled from the spec: the constants \<^verbatim>\<open>nametransform.DirIVFilename\<close> and
  \<^verbatim>\<open>nametransform.DirIVLen\<close> are declared in a package that is not part of the
  sources at hand. The directory-IV file is 16 bytes long and has a fixed well-known
  name; the name is the one the comments at rfs.go:54 and rfs.go:155 spell out.
\<close>

definition DirIVFilename :: string where
  "DirIVFilename = ''gocryptfs.diriv''"

definition DirIVLen :: "64 word" where
  "DirIVLen = 16"

text \<open>\<^verbatim>\<open>DirIVMode = syscall.S_IFREG | 0400\<close>; octal 0400 is \<open>0x100\<close>.\<close>

definition DirIVMode :: "32 word" where
  "DirIVMode = S_IFREG OR 0x100"

text \<open>
  The struct \<^verbatim>\<open>reverseFS\<close> together with what its methods in rfs.go call and the
  sources at hand do not define. Each is a field, so every theorem below holds for
  whatever these collaborators compute:
  \<^item> \<open>loopbackfs_GetAttr\<close>, \<open>loopbackfs_OpenDir\<close>: the loopback filesystem over the
    plaintext tree; a nil pointer or nil slice is \<open>None\<close>;
  \<^item> \<open>decryptPath\<close>, \<open>encryptPath\<close>, \<open>isFiltered\<close>, \<open>rfs_abs\<close>: methods of
    \<^verbatim>\<open>reverseFS\<close> from another file (\<^verbatim>\<open>abs\<close> takes the pair returned by the path
    translation and returns a pair again);
  \<^item> \<open>PlainSizeToCipherSize\<close>: the method of the content encryption helper;
  \<^item> \<open>syscall_Access\<close>: \<^verbatim>\<open>fuse.ToStatus(syscall.Access(path, mode))\<close>;
  \<^item> \<open>os_OpenFile\<close>: \<^verbatim>\<open>os.OpenFile(path, flag, perm)\<close>, with \<open>'f\<close> the open file;
  \<^item> \<open>NewFile\<close>: \<^verbatim>\<open>NewFile(f, rfs.contentEnc)\<close>, with \<open>'h\<close> the FUSE file handle.
  The \<^verbatim>\<open>fuse.Context\<close> argument is only passed on to the loopback filesystem and is
  left out. The \<^verbatim>\<open>fmt.Printf\<close> tracing of GetAttr does not influence what is
  returned and is left out as well.
\<close>

record ('f, 'h) reverseFS =
  loopbackfs_GetAttr :: "string \<Rightarrow> Attr option \<times> Status"
  loopbackfs_OpenDir :: "string \<Rightarrow> DirEntry list option \<times> Status"
  decryptPath :: "string \<Rightarrow> Status + string"
  encryptPath :: "string \<Rightarrow> Status + string"
  isFiltered :: "string \<Rightarrow> bool"
  rfs_abs :: "Status + string \<Rightarrow> Status + string"
  PlainSizeToCipherSize :: "64 word \<Rightarrow> 64 word"
  syscall_Access :: "string \<Rightarrow> 32 word \<Rightarrow> Status"
  os_OpenFile :: "string \<Rightarrow> int \<Rightarrow> 32 word \<Rightarrow> Status + 'f"
  NewFile :: "'f \<Rightarrow> 'h option \<times> Status"

text \<open>
  A method either returns or panics: GetAttr dereferences the attribute pointer of
  the loopback filesystem after testing only the status, so a nil pointer that comes
  with an OK status is a nil dereference.
\<close>

datatype 'a outcome = Panic | Return 'a

definition GetAttr :: "('f, 'h) reverseFS \<Rightarrow> string \<Rightarrow> (Attr option \<times> Status) outcome" where
  "GetAttr rfs relPath =
     (if relPath = DirIVFilename \<or> HasSuffix relPath DirIVFilename then
        (let cDir = path_Dir relPath;
             cDir = (if cDir = ''.'' then [] else cDir)
         in case decryptPath rfs cDir of
              Inl err \<Rightarrow> Return (None, err)
            | Inr dir \<Rightarrow>
                (case loopbackfs_GetAttr rfs dir of
                   (a, status) \<Rightarrow>
                     if \<not> Status_Ok status then Return (None, status)
                     else (case a of
                             None \<Rightarrow> Panic
                           | Some a \<Rightarrow>
                               if \<not> IsDir a then Return (None, ENOTDIR)
                               else if Mode a AND S_IXUSR = 0 then Return (None, EPERM)
                               else Return (Some (a\<lparr>Mode := DirIVMode, Size := DirIVLen,
                                                    Nlink := 1\<rparr>), OK))))
      else if isFiltered rfs relPath then Return (None, EPERM)
      else (case decryptPath rfs relPath of
              Inl err \<Rightarrow> Return (None, err)
            | Inr relPath \<Rightarrow>
                (case loopbackfs_GetAttr rfs relPath of
                   (a, status) \<Rightarrow>
                     if \<not> Status_Ok status then Return (None, status)
                     else (case a of
                             None \<Rightarrow> Panic
                           | Some a \<Rightarrow>
                               Return (Some (if IsRegular a
                                             then a\<lparr>Size := PlainSizeToCipherSize rfs (Size a)\<rparr>
                                             else a), OK)))))"

definition Access :: "('f, 'h) reverseFS \<Rightarrow> string \<Rightarrow> 32 word \<Rightarrow> Status" where
  "Access rfs relPath mode =
     (if isFiltered rfs relPath then EPERM
      else (case rfs_abs rfs (encryptPath rfs relPath) of
              Inl err \<Rightarrow> err
            | Inr cPath \<Rightarrow> syscall_Access rfs cPath mode))"

text \<open>
  \<^verbatim>\<open>int(flags)\<close> of a \<^verbatim>\<open>uint32\<close> is its unsigned value (a 64-bit \<^verbatim>\<open>int\<close>); octal
  0666 is \<open>0x1B6\<close>.
\<close>

definition Open :: "('f, 'h) reverseFS \<Rightarrow> string \<Rightarrow> 32 word \<Rightarrow> 'h option \<times> Status" where
  "Open rfs relPath flags =
     (if isFiltered rfs relPath then (None, EPERM)
      else (case rfs_abs rfs (decryptPath rfs relPath) of
              Inl err \<Rightarrow> (None, err)
            | Inr absPath \<Rightarrow>
                (case os_OpenFile rfs absPath (uint flags) 0x1B6 of
                   Inl err \<Rightarrow> (None, err)
                 | Inr f \<Rightarrow> NewFile rfs f)))"

text \<open>
  The loop of OpenDir over the entries: each name is replaced by its encryption, and
  the first name that fails to encrypt ends the loop with its error.
\<close>

fun encryptNames :: "(string \<Rightarrow> Status + string) \<Rightarrow> DirEntry list \<Rightarrow> Status + DirEntry list" where
  "encryptNames enc [] = Inr []"
| "encryptNames enc (e # es) =
     (case enc (Name e) of
        Inl err \<Rightarrow> Inl err
      | Inr n \<Rightarrow>
          (case encryptNames enc es of
             Inl err \<Rightarrow> Inl err
           | Inr es' \<Rightarrow> Inr (e\<lparr>Name := n\<rparr> # es')))"

definition OpenDir :: "('f, 'h) reverseFS \<Rightarrow> string \<Rightarrow> DirEntry list option \<times> Status" where
  "OpenDir rfs relPath =
     (case decryptPath rfs relPath of
        Inl err \<Rightarrow> (None, err)
      | Inr relPath \<Rightarrow>
          (case loopbackfs_OpenDir rfs relPath of
             (None, status) \<Rightarrow> (None, status)
           | (Some entries, status) \<Rightarrow>
               (case encryptNames (encryptPath rfs) entries of
                  Inl err \<Rightarrow> (None, err)
                | Inr entries \<Rightarrow>
                    (Some (entries @ [\<lparr>EntryMode = S_IFREG OR 0x100, Name = DirIVFilename\<rparr>]),
                     OK))))"

section \<open>Loading a config file and changing its password (package main)\<close>

text \<open>
  \<^verbatim>\<open>loadConfig\<close> and \<^verbatim>\<open>changePassword\<close> call into package \<^verbatim>\<open>cryptfs\<close>, into \<^verbatim>\<open>os\<close>
  and into the password prompts, none of which the sources at hand define. They are
  fields of an environment, so the theorems hold for whatever they compute:
  \<^item> \<open>os_Stat\<close>: \<^verbatim>\<open>os.Stat(filename)\<close>, \<open>Some\<close> the error when it fails;
  \<^item> \<open>LoadConfFile\<close>: \<^verbatim>\<open>cryptfs.LoadConfFile(filename, pw)\<close>, \<open>Inl\<close> the error, else the
    master key and the config file object \<open>'cf\<close>;
  \<^item> \<open>EncryptKey\<close>: \<^verbatim>\<open>confFile.EncryptKey(masterkey, newPw)\<close>, which updates the config
    file object in place: the updated object is the result;
  \<^item> \<open>WriteFile\<close>: \<^verbatim>\<open>confFile.WriteFile()\<close>, \<open>Some\<close> the error when it fails;
  \<^item> \<open>Info_enabled\<close>: whether the logger \<^verbatim>\<open>cryptfs.Info\<close> prints (the flag \<^verbatim>\<open>-q\<close>
    disables it).
  An error is represented by its message, which is what \<^verbatim>\<open>fmt.Print(err)\<close> and
  \<^verbatim>\<open>fmt.Println(err)\<close> write. The passwords are the values the prompts
  \<^verbatim>\<open>readPassword()\<close> and \<^verbatim>\<open>readPasswordTwice()\<close> return; what the prompts themselves
  write to the terminal is not part of the model. \<^verbatim>\<open>cryptfs.Warn\<close> is switched off
  around \<^verbatim>\<open>LoadConfFile\<close> and on again afterwards; the two functions write nothing
  through it.
\<close>

definition ERREXIT_INIT :: nat where "ERREXIT_INIT = 7"
definition ERREXIT_LOADCONF :: nat where "ERREXIT_LOADCONF = 8"

definition newline :: string where
  "newline = [CHR 0x0A]"

record 'cf cryptfs =
  os_Stat :: "string \<Rightarrow> string option"
  LoadConfFile :: "string \<Rightarrow> string \<Rightarrow> string + (8 word list \<times> 'cf)"
  EncryptKey :: "'cf \<Rightarrow> 8 word list \<Rightarrow> string \<Rightarrow> 'cf"
  WriteFile :: "'cf \<Rightarrow> string option"
  Info_enabled :: bool

definition Info_Printf :: "'cf cryptfs \<Rightarrow> string \<Rightarrow> string" where
  "Info_Printf env s = (if Info_enabled env then s else [])"

text \<open>
  A function of package main either returns a value or ends the process with
  \<^verbatim>\<open>os.Exit(code)\<close>; both carry what has been written to standard output.
\<close>

datatype 'a run = Exited nat string | Returned 'a string

definition loadConfig :: "'cf cryptfs \<Rightarrow> string \<Rightarrow> string \<Rightarrow> (8 word list \<times> 'cf) run" where
  "loadConfig env filename pw =
     (case os_Stat env filename of
        Some err \<Rightarrow> Exited ERREXIT_LOADCONF err
      | None \<Rightarrow>
          (let out = ''Password: '' @ Info_Printf env ''Decrypting master key... ''
           in case LoadConfFile env filename pw of
                Inl err \<Rightarrow>
                  Exited ERREXIT_LOADCONF (out @ err @ newline @ ''Wrong password.'' @ newline)
              | Inr (masterkey, confFile) \<Rightarrow>
                  Returned (masterkey, confFile) (out @ Info_Printf env (''done.'' @ newline))))"

text \<open>
  \<^verbatim>\<open>changePassword\<close> always ends the process. \<open>written\<close> is the config file object
  that \<^verbatim>\<open>WriteFile\<close> was called on (\<open>None\<close> when the call was not reached); \<open>code\<close>
  tells whether that call succeeded.
\<close>

record 'cf exit =
  code :: nat
  stdout :: string
  written :: "'cf option"

definition changePassword :: "'cf cryptfs \<Rightarrow> string \<Rightarrow> string \<Rightarrow> string \<Rightarrow> 'cf exit" where
  "changePassword env filename oldPw newPw =
     (case loadConfig env filename oldPw of
        Exited c out \<Rightarrow> \<lparr>code = c, stdout = out, written = None\<rparr>
      | Returned (masterkey, confFile) out \<Rightarrow>
          (let out = out @ ''Please enter your new password.'' @ newline;
               confFile = EncryptKey env confFile masterkey newPw
           in case WriteFile env confFile of
                Some err \<Rightarrow>
                  \<lparr>code = ERREXIT_INIT, stdout = out @ err @ newline, written = Some confFile\<rparr>
              | None \<Rightarrow>
                  \<lparr>code = 0, stdout = out @ Info_Printf env (''Password changed.'' @ newline),
                   written = Some confFile\<rparr>))"

section \<open>Concrete trees and environments\<close>

text \<open>
  A small plaintext tree for evaluating the operations: a root directory (mode 0755)
  holding the regular file \<^verbatim>\<open>secret.txt\<close> (10000 bytes), the directory \<^verbatim>\<open>locked\<close>
  without execute permission (mode 0600), the config file \<^verbatim>\<open>gocryptfs.conf\<close>, a
  regular file \<^verbatim>\<open>mygocryptfs.diriv\<close>, and the directory \<^verbatim>\<open>old\<close> holding a regular
  file that is itself called \<^verbatim>\<open>gocryptfs.diriv\<close>.
  \<open>plain_rfs\<close> passes names through unchanged (plaintext names) and excludes the
  config file; \<open>toy_rfs\<close> encrypts a name by putting the letter E in front of it and
  decrypts by taking it off; \<open>limit_rfs\<close> in addition refuses to encrypt a name of more
  than twelve bytes; \<open>tail_rfs\<close> puts the letter E behind the name instead of in front. The open file and the file handle are the pair of the path and
  the flags the file was opened with.
\<close>

definition ENAMETOOLONG :: Status where "ENAMETOOLONG = 36"

definition demo_attr :: "64 word \<Rightarrow> 32 word \<Rightarrow> 64 word \<Rightarrow> 32 word \<Rightarrow> Attr" where
  "demo_attr ino mode sz nlink =
     \<lparr>Ino = ino, Size = sz, Blocks = 8, Atime = 1470000000, Mtime = 1470000001,
      Ctime = 1470000002, Atimensec = 0, Mtimensec = 0, Ctimensec = 0, Mode = mode,
      Nlink = nlink, Uid = 1000, Gid = 1000, Rdev = 0, Blksize = 4096, Padding = 0\<rparr>"

definition demo_GetAttr :: "string \<Rightarrow> Attr option \<times> Status" where
  "demo_GetAttr p =
     (if p = [] then (Some (demo_attr 2 0x41ED 4096 4), OK)
      else if p = ''secret.txt'' then (Some (demo_attr 11 0x81A4 10000 1), OK)
      else if p = ''locked'' then (Some (demo_attr 12 0x4180 4096 2), OK)
      else if p = ''gocryptfs.conf'' then (Some (demo_attr 13 0x8180 400 1), OK)
      else if p = ''mygocryptfs.diriv'' then (Some (demo_attr 14 0x81A4 5 1), OK)
      else if p = ''old'' then (Some (demo_attr 15 0x41ED 4096 2), OK)
      else if p = ''old/gocryptfs.diriv'' then (Some (demo_attr 16 0x81A4 16 1), OK)
      else (None, ENOENT))"

text \<open>A loopback filesystem that knows the root directory and nothing else.\<close>

definition root_only_GetAttr :: "string \<Rightarrow> Attr option \<times> Status" where
  "root_only_GetAttr p = (if p = [] then (Some (demo_attr 2 0x41ED 4096 4), OK) else (None, ENOENT))"

definition demo_OpenDir :: "string \<Rightarrow> DirEntry list option \<times> Status" where
  "demo_OpenDir p =
     (if p = [] then
        (Some [\<lparr>EntryMode = 0x81A4, Name = ''secret.txt''\<rparr>,
               \<lparr>EntryMode = 0x4180, Name = ''locked''\<rparr>,
               \<lparr>EntryMode = 0x8180, Name = ''gocryptfs.conf''\<rparr>,
               \<lparr>EntryMode = 0x81A4, Name = ''mygocryptfs.diriv''\<rparr>,
               \<lparr>EntryMode = 0x41ED, Name = ''old''\<rparr>], OK)
      else if p = ''old'' then
        (Some [\<lparr>EntryMode = 0x81A4, Name = ''gocryptfs.diriv''\<rparr>], OK)
      else if p = ''locked'' then (Some [], OK)
      else (None, ENOENT))"

definition demo_abs :: "Status + string \<Rightarrow> Status + string" where
  "demo_abs r = (case r of Inl err \<Rightarrow> Inl err
                 | Inr p \<Rightarrow> Inr (if p = [] then ''/plain'' else ''/plain/'' @ p))"

definition demo_size :: "64 word \<Rightarrow> 64 word" where
  "demo_size n = (if n = 0 then 0 else 18 + ((n + 4095) div 4096) * 4128)"

definition demo_Access :: "string \<Rightarrow> 32 word \<Rightarrow> Status" where
  "demo_Access p mode =
     (if p = ''/plain'' \<or> p = ''/plain/secret.txt'' \<or> p = ''/plain/old'' then OK else ENOENT)"

definition demo_OpenFile :: "string \<Rightarrow> int \<Rightarrow> 32 word \<Rightarrow> Status + string \<times> int" where
  "demo_OpenFile p flag perm =
     (if p = ''/plain/secret.txt'' \<or> p = ''/plain/gocryptfs.conf'' then Inr (p, flag)
      else Inl ENOENT)"

definition plain_rfs :: "(string \<times> int, string \<times> int) reverseFS" where
  "plain_rfs =
     \<lparr>loopbackfs_GetAttr = demo_GetAttr, loopbackfs_OpenDir = demo_OpenDir,
      decryptPath = Inr, encryptPath = Inr,
      isFiltered = (\<lambda>p. p = ''gocryptfs.conf''),
      rfs_abs = demo_abs, PlainSizeToCipherSize = demo_size,
      syscall_Access = demo_Access, os_OpenFile = demo_OpenFile,
      NewFile = (\<lambda>f. (Some f, OK))\<rparr>"

definition toy_encrypt :: "string \<Rightarrow> Status + string" where
  "toy_encrypt p = (if p = [] then Inr [] else Inr (CHR ''E'' # p))"

definition toy_decrypt :: "string \<Rightarrow> Status + string" where
  "toy_decrypt p = (case p of [] \<Rightarrow> Inr []
                    | c # cs \<Rightarrow> if c = CHR ''E'' then Inr cs else Inl ENOENT)"

definition toy_rfs :: "(string \<times> int, string \<times> int) reverseFS" where
  "toy_rfs = plain_rfs\<lparr>decryptPath := toy_decrypt, encryptPath := toy_encrypt\<rparr>"

definition limit_encrypt :: "string \<Rightarrow> Status + string" where
  "limit_encrypt p = (if 12 < length p then Inl ENAMETOOLONG else toy_encrypt p)"

definition limit_rfs :: "(string \<times> int, string \<times> int) reverseFS" where
  "limit_rfs = toy_rfs\<lparr>encryptPath := limit_encrypt\<rparr>"

definition tail_encrypt :: "string \<Rightarrow> Status + string" where
  "tail_encrypt p = (if p = [] then Inr [] else Inr (p @ ''E''))"

definition tail_decrypt :: "string \<Rightarrow> Status + string" where
  "tail_decrypt p =
     (if p = [] then Inr []
      else if last p = CHR ''E'' then Inr (butlast p) else Inl ENOENT)"

definition tail_rfs :: "(string \<times> int, string \<times> int) reverseFS" where
  "tail_rfs = plain_rfs\<lparr>decryptPath := tail_decrypt, encryptPath := tail_encrypt\<rparr>"

text \<open>
  A config file \<^verbatim>\<open>gocryptfs.conf\<close> that unlocks with the password \<^verbatim>\<open>old password\<close>, a
  file \<^verbatim>\<open>corrupt.conf\<close> that does not parse, and no other file. The config file
  object is the pair of the wrapping password and the wrapped key.
\<close>

definition demo_Stat :: "string \<Rightarrow> string option" where
  "demo_Stat filename =
     (if filename = ''gocryptfs.conf'' \<or> filename = ''corrupt.conf'' then None
      else Some (''stat '' @ filename @ '': no such file or directory''))"

definition demo_LoadConfFile :: "string \<Rightarrow> string \<Rightarrow> string + (8 word list \<times> (string \<times> 8 word list))" where
  "demo_LoadConfFile filename pw =
     (if filename = ''gocryptfs.conf'' then
        (if pw = ''old password'' then Inr ([1, 2, 3, 4], (''old password'', [1, 2, 3, 4]))
         else Inl ''cipher: message authentication failed'')
      else Inl ''unexpected end of JSON input'')"

definition demo_cryptfs :: "(string \<times> 8 word list) cryptfs" where
  "demo_cryptfs =
     \<lparr>os_Stat = demo_Stat, LoadConfFile = demo_LoadConfFile,
      EncryptKey = (\<lambda>cf key pw. (pw, key)), WriteFile = (\<lambda>cf. None), Info_enabled = True\<rparr>"

lemmas demo_defs = plain_rfs_def toy_rfs_def limit_rfs_def demo_GetAttr_def demo_OpenDir_def
  demo_abs_def demo_size_def demo_Access_def demo_OpenFile_def toy_encrypt_def toy_decrypt_def
  limit_encrypt_def demo_attr_def

lemmas status_defs = OK_def EPERM_def ENOENT_def ENOTDIR_def EIO_def ENAMETOOLONG_def Status_Ok_def

lemmas mode_defs = IsDir_def IsRegular_def S_IFMT_def S_IFDIR_def S_IFREG_def S_IXUSR_def
  DirIVMode_def DirIVLen_def

lemmas flag_defs = O_RDONLY_def O_WRONLY_def O_RDWR_def O_ACCMODE_def O_TRUNC_def

section \<open>Auxiliary facts\<close>

lemma HasSuffix_append: "HasSuffix (pre @ s) s"
  by (simp add: HasSuffix_def)

lemma HasSuffix_iff: "HasSuffix s suffix \<longleftrightarrow> (\<exists>pre. s = pre @ suffix)"
proof
  assume h: "HasSuffix s suffix"
  then have "s = take (length s - length suffix) s @ suffix"
    by (metis HasSuffix_def append_take_drop_id)
  then show "\<exists>pre. s = pre @ suffix" ..
next
  assume "\<exists>pre. s = pre @ suffix"
  then show "HasSuffix s suffix" by (auto simp: HasSuffix_append)
qed

lemma path_Dir_root_diriv: "path_Dir ''gocryptfs.diriv'' = ''.''"
  by (simp add: path_Dir_def Clean_def)

lemma path_Dir_my_diriv: "path_Dir ''mygocryptfs.diriv'' = ''.''"
  by (simp add: path_Dir_def Clean_def)

lemma path_Dir_secret_diriv: "path_Dir ''Esecret.txt/gocryptfs.diriv'' = ''Esecret.txt''"
  by (simp add: path_Dir_def Clean_def)

lemma path_Dir_locked_diriv: "path_Dir ''Elocked/gocryptfs.diriv'' = ''Elocked''"
  by (simp add: path_Dir_def Clean_def)

lemma encryptNames_all:
  "map (\<lambda>e. enc (Name e)) entries = map Inr names \<Longrightarrow>
   encryptNames enc entries = Inr (map2 (\<lambda>e n. e\<lparr>Name := n\<rparr>) entries names)"
proof (induction entries arbitrary: names)
  case Nil
  then show ?case by simp
next
  case (Cons e es)
  then obtain n ns where names: "names = n # ns" by (cases names) auto
  with Cons.prems have "enc (Name e) = Inr n" and "map (\<lambda>e. enc (Name e)) es = map Inr ns"
    by simp_all
  with Cons.IH [of ns] names show ?case by simp
qed

lemma encryptNames_fail:
  "enc (Name e) = Inl err \<Longrightarrow> \<forall>x \<in> set pre. \<exists>n. enc (Name x) = Inr n \<Longrightarrow>
   encryptNames enc (pre @ e # post) = Inl err"
  by (induction pre) (auto split: sum.splits)

lemma map2_Name:
  "length entries = length names \<Longrightarrow>
   map Name (map2 (\<lambda>e n. e\<lparr>Name := n\<rparr>) entries names) = names"
  by (induction entries names rule: list_induct2) simp_all

lemma OpenDir_encrypt_error:
  assumes "decryptPath rfs relPath = Inr p"
    and "loopbackfs_OpenDir rfs p = (Some (pre @ e # post), st)"
    and "map (\<lambda>e. encryptPath rfs (Name e)) pre = map Inr names"
    and "encryptPath rfs (Name e) = Inl err"
  shows "OpenDir rfs relPath = (None, err)"
proof -
  from assms(3) have "\<forall>x \<in> set pre. \<exists>n. encryptPath rfs (Name x) = Inr n"
  proof (induction pre arbitrary: names)
    case Nil
    then show ?case by simp
  next
    case (Cons x xs)
    then show ?case by (cases names) auto
  qed
  with assms(4) have "encryptNames (encryptPath rfs) (pre @ e # post) = Inl err"
    by (rule encryptNames_fail)
  with assms(1,2) show ?thesis
    by (simp add: OpenDir_def)
qed

text \<open>
  The exclusion policy is consulted by Access and Open on entry, and by GetAttr once
  the path is known not to end in the directory-IV file name. OpenDir never consults
  it, and Access never consults \<open>decryptPath\<close>.
\<close>

lemma isFiltered_hidden:
  assumes "isFiltered rfs relPath"
  shows "Access rfs relPath mode = EPERM"
    and "Open rfs relPath flags = (None, EPERM)"
    and "\<not> HasSuffix relPath DirIVFilename \<Longrightarrow> GetAttr rfs relPath = Return (None, EPERM)"
proof -
  show "Access rfs relPath mode = EPERM"
    using assms by (simp add: Access_def)
  show "Open rfs relPath flags = (None, EPERM)"
    using assms by (simp add: Open_def)
  assume n: "\<not> HasSuffix relPath DirIVFilename"
  then have "relPath \<noteq> DirIVFilename"
    using HasSuffix_append [of "[]" DirIVFilename] by auto
  with n assms show "GetAttr rfs relPath = Return (None, EPERM)"
    by (simp add: GetAttr_def)
qed

lemma OpenDir_ignores_isFiltered:
  "OpenDir (rfs\<lparr>isFiltered := f\<rparr>) relPath = OpenDir rfs relPath"
  by (simp add: OpenDir_def split: sum.splits prod.splits option.splits)

lemma Access_ignores_decryptPath:
  "Access (rfs\<lparr>decryptPath := d\<rparr>) relPath mode = Access rfs relPath mode"
  by (simp add: Access_def split: sum.splits)

lemma changePassword_load_failure:
  "loadConfig env filename oldPw = Exited c out \<Longrightarrow>
   changePassword env filename oldPw newPw = \<lparr>code = c, stdout = out, written = None\<rparr>"
  by (simp add: changePassword_def)

section \<open>The claims\<close>

subsection \<open>C1\<close>

text \<open>
  C1. A path that ends in the directory-IV file name is answered from the parent
  directory, that is from the attributes \<open>a\<close> the loopback filesystem reports for the
  decrypted \<^verbatim>\<open>path.Dir\<close> of the path. When the parent is a directory with owner execute
  permission, GetAttr returns a regular file of mode \<^verbatim>\<open>S_IFREG | 0400\<close>, size 16 and
  link count 1. When the parent is not a directory it fails with \<open>ENOTDIR\<close>
  (NotADirectory), and when the parent is a directory without owner execute
  permission it fails with \<open>EPERM\<close> (PermissionDenied).
\<close>

theorem GetAttr_dirIV_synthesized:
  assumes "HasSuffix relPath DirIVFilename"
    and "decryptPath rfs (if path_Dir relPath = ''.'' then [] else path_Dir relPath) = Inr dir"
    and "loopbackfs_GetAttr rfs dir = (Some a, OK)"
  shows "(IsDir a \<and> Mode a AND S_IXUSR \<noteq> 0 \<longrightarrow>
            (\<exists>a'. GetAttr rfs relPath = Return (Some a', OK) \<and> IsRegular a' \<and>
                  Mode a' = S_IFREG OR 0x100 \<and> Size a' = 16 \<and> Nlink a' = 1)) \<and>
         (\<not> IsDir a \<longrightarrow> GetAttr rfs relPath = Return (None, ENOTDIR)) \<and>
         (IsDir a \<and> Mode a AND S_IXUSR = 0 \<longrightarrow> GetAttr rfs relPath = Return (None, EPERM))"
  using assms
  by (simp add: GetAttr_def Let_def Status_Ok_def IsRegular_def DirIVMode_def DirIVLen_def
      S_IFMT_def S_IFREG_def)

theorem GetAttr_dirIV_synthesized_witness:
  "HasSuffix ''gocryptfs.diriv'' DirIVFilename \<and>
   HasSuffix ''Esecret.txt/gocryptfs.diriv'' DirIVFilename \<and>
   HasSuffix ''Elocked/gocryptfs.diriv'' DirIVFilename \<and>
   loopbackfs_GetAttr toy_rfs [] = (Some (demo_attr 2 0x41ED 4096 4), OK) \<and>
   GetAttr toy_rfs ''gocryptfs.diriv'' = Return (Some (demo_attr 2 0x8100 16 1), OK) \<and>
   loopbackfs_GetAttr toy_rfs ''secret.txt'' = (Some (demo_attr 11 0x81A4 10000 1), OK) \<and>
   GetAttr toy_rfs ''Esecret.txt/gocryptfs.diriv'' = Return (None, ENOTDIR) \<and>
   loopbackfs_GetAttr toy_rfs ''locked'' = (Some (demo_attr 12 0x4180 4096 2), OK) \<and>
   GetAttr toy_rfs ''Elocked/gocryptfs.diriv'' = Return (None, EPERM)"
proof -
  have s1: "HasSuffix ''gocryptfs.diriv'' DirIVFilename"
    and s2: "HasSuffix ''Esecret.txt/gocryptfs.diriv'' DirIVFilename"
    and s3: "HasSuffix ''Elocked/gocryptfs.diriv'' DirIVFilename"
    by (simp_all add: HasSuffix_def DirIVFilename_def)
  have d1: "decryptPath toy_rfs (if path_Dir ''gocryptfs.diriv'' = ''.'' then []
              else path_Dir ''gocryptfs.diriv'') = Inr []"
    by (simp add: path_Dir_root_diriv demo_defs)
  have d2: "decryptPath toy_rfs (if path_Dir ''Esecret.txt/gocryptfs.diriv'' = ''.'' then []
              else path_Dir ''Esecret.txt/gocryptfs.diriv'') = Inr ''secret.txt''"
    by (simp add: path_Dir_secret_diriv demo_defs)
  have d3: "decryptPath toy_rfs (if path_Dir ''Elocked/gocryptfs.diriv'' = ''.'' then []
              else path_Dir ''Elocked/gocryptfs.diriv'') = Inr ''locked''"
    by (simp add: path_Dir_locked_diriv demo_defs)
  have g1: "loopbackfs_GetAttr toy_rfs [] = (Some (demo_attr 2 0x41ED 4096 4), OK)"
    and g2: "loopbackfs_GetAttr toy_rfs ''secret.txt'' = (Some (demo_attr 11 0x81A4 10000 1), OK)"
    and g3: "loopbackfs_GetAttr toy_rfs ''locked'' = (Some (demo_attr 12 0x4180 4096 2), OK)"
    by (simp_all add: plain_rfs_def toy_rfs_def demo_GetAttr_def)
  have m1: "IsDir (demo_attr 2 0x41ED 4096 4) \<and> Mode (demo_attr 2 0x41ED 4096 4) AND S_IXUSR \<noteq> 0"
    and m2: "\<not> IsDir (demo_attr 11 0x81A4 10000 1)"
    and m3: "IsDir (demo_attr 12 0x4180 4096 2) \<and> Mode (demo_attr 12 0x4180 4096 2) AND S_IXUSR = 0"
    by (simp_all add: demo_attr_def mode_defs)
  from GetAttr_dirIV_synthesized [OF s1 d1 g1] m1
  obtain a' where "GetAttr toy_rfs ''gocryptfs.diriv'' = Return (Some a', OK)" by blast
  moreover have "GetAttr toy_rfs ''gocryptfs.diriv'' = Return (Some (demo_attr 2 0x8100 16 1), OK)"
    using s1 d1 g1 m1 by (simp add: GetAttr_def Let_def Status_Ok_def demo_attr_def mode_defs)
  moreover from GetAttr_dirIV_synthesized [OF s2 d2 g2] m2
  have "GetAttr toy_rfs ''Esecret.txt/gocryptfs.diriv'' = Return (None, ENOTDIR)" by blast
  moreover from GetAttr_dirIV_synthesized [OF s3 d3 g3] m3
  have "GetAttr toy_rfs ''Elocked/gocryptfs.diriv'' = Return (None, EPERM)" by blast
  ultimately show ?thesis using s1 s2 s3 g1 g2 g3 by simp
qed

subsection \<open>C2\<close>



subsection \<open>C3\<close>

text \<open>
  C3, as the code has it. When the directory path decrypts, the underlying listing is
  not nil and every entry name encrypts (to \<open>names\<close>, in the order of the entries),
  OpenDir returns the underlying entries with their modes kept and their names
  replaced by the encrypted names, in the order the host gave, followed by one
  synthetic directory-IV entry of mode \<^verbatim>\<open>S_IFREG | 0400\<close>: the listing is one longer than
  the underlying one. The directory-IV file name occurs once more than it occurs among
  the encrypted names, so exactly once when no encrypted name equals it.
  A name that fails to encrypt makes the whole listing fail with that error
  (\<open>OpenDir_encrypt_error\<close>).
\<close>

theorem OpenDir_listing:
  assumes "decryptPath rfs relPath = Inr p"
    and "loopbackfs_OpenDir rfs p = (Some entries, st)"
    and "map (\<lambda>e. encryptPath rfs (Name e)) entries = map Inr names"
  shows "\<exists>listing. OpenDir rfs relPath = (Some listing, OK) \<and>
           listing = map2 (\<lambda>e n. e\<lparr>Name := n\<rparr>) entries names @
                       [\<lparr>EntryMode = S_IFREG OR 0x100, Name = DirIVFilename\<rparr>] \<and>
           length listing = length entries + 1 \<and>
           map EntryMode (butlast listing) = map EntryMode entries \<and>
           map Name (butlast listing) = names \<and>
           count_list (map Name listing) DirIVFilename = count_list names DirIVFilename + 1"
proof -
  define es where "es = map2 (\<lambda>e n. e\<lparr>Name := n\<rparr>) entries names"
  from assms(3) have len: "length entries = length names"
    by (metis length_map)
  have enc: "encryptNames (encryptPath rfs) entries = Inr es"
    unfolding es_def using assms(3) by (rule encryptNames_all)
  have names: "map Name es = names"
    unfolding es_def using len by (rule map2_Name)
  have modes: "map EntryMode es = map EntryMode entries"
    unfolding es_def using len by (induction entries names rule: list_induct2) simp_all
  have length: "length es = length entries"
    unfolding es_def using len by simp
  have "OpenDir rfs relPath =
          (Some (es @ [\<lparr>EntryMode = S_IFREG OR 0x100, Name = DirIVFilename\<rparr>]), OK)"
    using assms(1,2) enc by (simp add: OpenDir_def)
  then show ?thesis
    unfolding es_def [symmetric] by (simp add: names modes length)
qed

theorem OpenDir_listing_witness:
  "decryptPath toy_rfs [] = Inr [] \<and>
   loopbackfs_OpenDir toy_rfs [] =
     (Some [\<lparr>EntryMode = 0x81A4, Name = ''secret.txt''\<rparr>,
            \<lparr>EntryMode = 0x4180, Name = ''locked''\<rparr>,
            \<lparr>EntryMode = 0x8180, Name = ''gocryptfs.conf''\<rparr>,
            \<lparr>EntryMode = 0x81A4, Name = ''mygocryptfs.diriv''\<rparr>,
            \<lparr>EntryMode = 0x41ED, Name = ''old''\<rparr>], OK) \<and>
   OpenDir toy_rfs [] =
     (Some [\<lparr>EntryMode = 0x81A4, Name = ''Esecret.txt''\<rparr>,
            \<lparr>EntryMode = 0x4180, Name = ''Elocked''\<rparr>,
            \<lparr>EntryMode = 0x8180, Name = ''Egocryptfs.conf''\<rparr>,
            \<lparr>EntryMode = 0x81A4, Name = ''Emygocryptfs.diriv''\<rparr>,
            \<lparr>EntryMode = 0x41ED, Name = ''Eold''\<rparr>,
            \<lparr>EntryMode = 0x8100, Name = ''gocryptfs.diriv''\<rparr>], OK) \<and>
   count_list [''Esecret.txt'', ''Elocked'', ''Egocryptfs.conf'', ''Emygocryptfs.diriv'',
               ''Eold'', ''gocryptfs.diriv''] DirIVFilename = 1"
proof -
  have d: "decryptPath toy_rfs [] = Inr []"
    by (simp add: plain_rfs_def toy_rfs_def toy_decrypt_def)
  have l: "loopbackfs_OpenDir toy_rfs [] =
     (Some [\<lparr>EntryMode = 0x81A4, Name = ''secret.txt''\<rparr>,
            \<lparr>EntryMode = 0x4180, Name = ''locked''\<rparr>,
            \<lparr>EntryMode = 0x8180, Name = ''gocryptfs.conf''\<rparr>,
            \<lparr>EntryMode = 0x81A4, Name = ''mygocryptfs.diriv''\<rparr>,
            \<lparr>EntryMode = 0x41ED, Name = ''old''\<rparr>], OK)"
    by (simp add: plain_rfs_def toy_rfs_def demo_OpenDir_def)
  have n: "map (\<lambda>e. encryptPath toy_rfs (Name e))
             [\<lparr>EntryMode = 0x81A4, Name = ''secret.txt''\<rparr>,
              \<lparr>EntryMode = 0x4180, Name = ''locked''\<rparr>,
              \<lparr>EntryMode = 0x8180, Name = ''gocryptfs.conf''\<rparr>,
              \<lparr>EntryMode = 0x81A4, Name = ''mygocryptfs.diriv''\<rparr>,
              \<lparr>EntryMode = 0x41ED, Name = ''old''\<rparr>] =
           map Inr [''Esecret.txt'', ''Elocked'', ''Egocryptfs.conf'', ''Emygocryptfs.diriv'',
                    ''Eold'']"
    by (simp add: plain_rfs_def toy_rfs_def toy_encrypt_def)
  from OpenDir_listing [OF d l n] d l show ?thesis
    by (auto simp: S_IFREG_def DirIVFilename_def)
qed

text \<open>
  The listing of a directory can fail although the underlying listing succeeded: in
  \<open>limit_rfs\<close> the name \<^verbatim>\<open>gocryptfs.conf\<close> does not encrypt. And the directory-IV file
  name can occur twice: with plaintext names, the directory \<^verbatim>\<open>old\<close> holds a real file
  of that name next to the synthetic entry.
\<close>

theorem OpenDir_listing_counterexample:
  "loopbackfs_OpenDir limit_rfs [] =
     (Some [\<lparr>EntryMode = 0x81A4, Name = ''secret.txt''\<rparr>,
            \<lparr>EntryMode = 0x4180, Name = ''locked''\<rparr>,
            \<lparr>EntryMode = 0x8180, Name = ''gocryptfs.conf''\<rparr>,
            \<lparr>EntryMode = 0x81A4, Name = ''mygocryptfs.diriv''\<rparr>,
            \<lparr>EntryMode = 0x41ED, Name = ''old''\<rparr>], OK) \<and>
   OpenDir limit_rfs [] = (None, ENAMETOOLONG) \<and>
   loopbackfs_OpenDir plain_rfs ''old'' =
     (Some [\<lparr>EntryMode = 0x81A4, Name = ''gocryptfs.diriv''\<rparr>], OK) \<and>
   OpenDir plain_rfs ''old'' =
     (Some [\<lparr>EntryMode = 0x81A4, Name = DirIVFilename\<rparr>,
            \<lparr>EntryMode = 0x8100, Name = DirIVFilename\<rparr>], OK) \<and>
   count_list [DirIVFilename, DirIVFilename] DirIVFilename = 2"
  by (simp add: OpenDir_def demo_defs S_IFREG_def DirIVFilename_def)

subsection \<open>C4\<close>

text \<open>
  C4. The config file at the root of the tree is excluded in \<open>plain_rfs\<close>. GetAttr,
  Access and Open answer \<open>EPERM\<close> for it, but the listing of the root directory shows
  its entry, with its real mode and its name: OpenDir does not consult the exclusion
  policy.
\<close>

theorem exclusion_not_applied_by_OpenDir:
  "isFiltered plain_rfs ''gocryptfs.conf'' \<and>
   GetAttr plain_rfs ''gocryptfs.conf'' = Return (None, EPERM) \<and>
   Access plain_rfs ''gocryptfs.conf'' 4 = EPERM \<and>
   Open plain_rfs ''gocryptfs.conf'' O_RDONLY = (None, EPERM) \<and>
   OpenDir plain_rfs [] =
     (Some [\<lparr>EntryMode = 0x81A4, Name = ''secret.txt''\<rparr>,
            \<lparr>EntryMode = 0x4180, Name = ''locked''\<rparr>,
            \<lparr>EntryMode = 0x8180, Name = ''gocryptfs.conf''\<rparr>,
            \<lparr>EntryMode = 0x81A4, Name = ''mygocryptfs.diriv''\<rparr>,
            \<lparr>EntryMode = 0x41ED, Name = ''old''\<rparr>,
            \<lparr>EntryMode = 0x8100, Name = ''gocryptfs.diriv''\<rparr>], OK)"
  by (simp add: GetAttr_def Access_def Open_def OpenDir_def demo_defs S_IFREG_def
      DirIVFilename_def HasSuffix_def)

subsection \<open>C5\<close>

text \<open>
  C5. GetAttr and Open resolve the incoming path \<^verbatim>\<open>Esecret.txt\<close> with \<open>decryptPath\<close> to
  the plaintext file \<^verbatim>\<open>secret.txt\<close>, which the underlying access check admits. Access
  translates the same path with \<open>encryptPath\<close>, checks \<^verbatim>\<open>/plain/EEsecret.txt\<close> instead
  and answers \<open>ENOENT\<close>. Access has no branch for the virtual directory-IV file either:
  GetAttr synthesizes it for the root directory, Access answers \<open>ENOENT\<close>.
\<close>

theorem Access_translates_with_encryptPath:
  "decryptPath toy_rfs ''Esecret.txt'' = Inr ''secret.txt'' \<and>
   GetAttr toy_rfs ''Esecret.txt'' = Return (Some (demo_attr 11 0x81A4 12402 1), OK) \<and>
   Open toy_rfs ''Esecret.txt'' O_RDONLY = (Some (''/plain/secret.txt'', 0), OK) \<and>
   syscall_Access toy_rfs ''/plain/secret.txt'' 4 = OK \<and>
   rfs_abs toy_rfs (encryptPath toy_rfs ''Esecret.txt'') = Inr ''/plain/EEsecret.txt'' \<and>
   Access toy_rfs ''Esecret.txt'' 4 = ENOENT \<and>
   GetAttr toy_rfs ''gocryptfs.diriv'' = Return (Some (demo_attr 2 0x8100 16 1), OK) \<and>
   Access toy_rfs ''gocryptfs.diriv'' 1 = ENOENT"
  by (simp add: GetAttr_def Access_def Open_def demo_defs DirIVFilename_def HasSuffix_def
      path_Dir_root_diriv status_defs mode_defs flag_defs)

subsection \<open>C6\<close>

text \<open>
  C6, as the code has it. For a path that is not excluded and translates to
  \<open>absPath\<close>, Open opens the underlying file with exactly the flags it was given and
  the creation mode 0666, and wraps the open file with \<open>NewFile\<close>; a failure of the
  underlying open is returned as its status. Open itself neither masks nor refuses
  flags that ask for write access.
\<close>

theorem Open_forwards_flags:
  assumes "\<not> isFiltered rfs relPath"
    and "rfs_abs rfs (decryptPath rfs relPath) = Inr absPath"
  shows "Open rfs relPath flags =
           (case os_OpenFile rfs absPath (uint flags) 0x1B6 of
              Inl err \<Rightarrow> (None, err)
            | Inr f \<Rightarrow> NewFile rfs f)"
  using assms by (simp add: Open_def)

theorem Open_forwards_flags_witness:
  "\<not> isFiltered toy_rfs ''Esecret.txt'' \<and>
   rfs_abs toy_rfs (decryptPath toy_rfs ''Esecret.txt'') = Inr ''/plain/secret.txt'' \<and>
   os_OpenFile toy_rfs ''/plain/secret.txt'' (uint O_RDWR) 0x1B6 = Inr (''/plain/secret.txt'', 2) \<and>
   Open toy_rfs ''Esecret.txt'' O_RDWR = (Some (''/plain/secret.txt'', 2), OK)"
proof -
  have f: "\<not> isFiltered toy_rfs ''Esecret.txt''"
    by (simp add: plain_rfs_def toy_rfs_def)
  have a: "rfs_abs toy_rfs (decryptPath toy_rfs ''Esecret.txt'') = Inr ''/plain/secret.txt''"
    by (simp add: plain_rfs_def toy_rfs_def toy_decrypt_def demo_abs_def)
  have o: "os_OpenFile toy_rfs ''/plain/secret.txt'' (uint O_RDWR) 0x1B6 =
             Inr (''/plain/secret.txt'', 2)"
    by (simp add: plain_rfs_def toy_rfs_def demo_OpenFile_def O_RDWR_def)
  have n: "NewFile toy_rfs (''/plain/secret.txt'', 2) = (Some (''/plain/secret.txt'', 2), OK)"
    by (simp add: plain_rfs_def toy_rfs_def)
  from Open_forwards_flags [OF f a, of O_RDWR] o n f a show ?thesis
    by simp
qed

text \<open>
  Open with \<^verbatim>\<open>O_WRONLY\<close>, alone or together with \<^verbatim>\<open>O_TRUNC\<close>, hands back the underlying
  plaintext file opened with those very flags.
\<close>

theorem Open_grants_write_counterexample:
  "O_WRONLY AND O_ACCMODE \<noteq> O_RDONLY \<and> (O_WRONLY OR O_TRUNC) AND O_ACCMODE = O_WRONLY \<and>
   Open toy_rfs ''Esecret.txt'' O_WRONLY = (Some (''/plain/secret.txt'', 0x1), OK) \<and>
   Open toy_rfs ''Esecret.txt'' (O_WRONLY OR O_TRUNC) = (Some (''/plain/secret.txt'', 0x201), OK)"
  by (simp add: Open_def demo_defs flag_defs)

subsection \<open>C7\<close>

text \<open>
  C7. When the config file exists and loads with the old password, giving the master
  key \<open>masterkey\<close> and the config file object \<open>confFile\<close>, changePassword hands to
  \<open>WriteFile\<close> exactly \<open>confFile\<close> re-wrapped by \<open>EncryptKey\<close> around that same
  \<open>masterkey\<close> under the new password; the process ends with code 0 when the write
  succeeds and with \<open>ERREXIT_INIT\<close> when it fails.
\<close>

theorem changePassword_rewraps_loaded_key:
  assumes "os_Stat env filename = None"
    and "LoadConfFile env filename oldPw = Inr (masterkey, confFile)"
  shows "written (changePassword env filename oldPw newPw) =
           Some (EncryptKey env confFile masterkey newPw) \<and>
         code (changePassword env filename oldPw newPw) =
           (case WriteFile env (EncryptKey env confFile masterkey newPw) of
              None \<Rightarrow> 0 | Some err \<Rightarrow> ERREXIT_INIT)"
  using assms
  by (simp add: changePassword_def loadConfig_def Let_def split: option.splits)

theorem changePassword_rewraps_loaded_key_witness:
  "os_Stat demo_cryptfs ''gocryptfs.conf'' = None \<and>
   LoadConfFile demo_cryptfs ''gocryptfs.conf'' ''old password'' =
     Inr ([1, 2, 3, 4], (''old password'', [1, 2, 3, 4])) \<and>
   EncryptKey demo_cryptfs (''old password'', [1, 2, 3, 4]) [1, 2, 3, 4] ''new password'' =
     (''new password'', [1, 2, 3, 4]) \<and>
   written (changePassword demo_cryptfs ''gocryptfs.conf'' ''old password'' ''new password'') =
     Some (''new password'', [1, 2, 3, 4]) \<and>
   code (changePassword demo_cryptfs ''gocryptfs.conf'' ''old password'' ''new password'') = 0"
proof -
  have s: "os_Stat demo_cryptfs ''gocryptfs.conf'' = None"
    by (simp add: demo_cryptfs_def demo_Stat_def)
  have l: "LoadConfFile demo_cryptfs ''gocryptfs.conf'' ''old password'' =
     Inr ([1, 2, 3, 4], (''old password'', [1, 2, 3, 4]))"
    by (simp add: demo_cryptfs_def demo_LoadConfFile_def)
  have e: "EncryptKey demo_cryptfs (''old password'', [1, 2, 3, 4]) [1, 2, 3, 4] ''new password'' =
     (''new password'', [1, 2, 3, 4])"
    and w: "WriteFile demo_cryptfs (''new password'', [1, 2, 3, 4]) = None"
    by (simp_all add: demo_cryptfs_def)
  from changePassword_rewraps_loaded_key [OF s l, of "''new password''"] s l e w
  show ?thesis by simp
qed

subsection \<open>C8\<close>

text \<open>
  C8, as the code has it. Every failure of loadConfig ends the process with the same
  exit code \<open>ERREXIT_LOADCONF\<close>. When the file cannot be stat'ed, the output is the
  error of the stat alone, and no password is asked for. When \<open>LoadConfFile\<close> fails,
  the output is the prompt, the error's own message on a line, and the line
  \<^verbatim>\<open>Wrong password.\<close>
\<close>

theorem loadConfig_failure_report:
  "(os_Stat env filename = Some err \<longrightarrow>
      loadConfig env filename pw = Exited ERREXIT_LOADCONF err) \<and>
   (os_Stat env filename = None \<and> LoadConfFile env filename pw = Inl err \<longrightarrow>
      loadConfig env filename pw =
        Exited ERREXIT_LOADCONF
          (''Password: '' @ Info_Printf env ''Decrypting master key... '' @
           err @ newline @ ''Wrong password.'' @ newline)) \<and>
   (loadConfig env filename pw = Exited c out \<longrightarrow> c = ERREXIT_LOADCONF)"
proof (intro conjI impI)
  assume "os_Stat env filename = Some err"
  then show "loadConfig env filename pw = Exited ERREXIT_LOADCONF err"
    by (simp add: loadConfig_def)
next
  assume "os_Stat env filename = None \<and> LoadConfFile env filename pw = Inl err"
  then show "loadConfig env filename pw =
        Exited ERREXIT_LOADCONF
          (''Password: '' @ Info_Printf env ''Decrypting master key... '' @
           err @ newline @ ''Wrong password.'' @ newline)"
    by (simp add: loadConfig_def Let_def)
next
  assume exited: "loadConfig env filename pw = Exited c out"
  show "c = ERREXIT_LOADCONF"
  proof (cases "os_Stat env filename")
    case (Some e)
    with exited show ?thesis by (simp add: loadConfig_def)
  next
    case None
    with exited show ?thesis
      by (cases "LoadConfFile env filename pw") (auto simp: loadConfig_def Let_def)
  qed
qed

theorem loadConfig_failure_report_witness:
  "os_Stat demo_cryptfs ''missing.conf'' = Some ''stat missing.conf: no such file or directory'' \<and>
   loadConfig demo_cryptfs ''missing.conf'' ''wrong'' =
     Exited 8 ''stat missing.conf: no such file or directory'' \<and>
   os_Stat demo_cryptfs ''gocryptfs.conf'' = None \<and>
   LoadConfFile demo_cryptfs ''gocryptfs.conf'' ''wrong'' =
     Inl ''cipher: message authentication failed'' \<and>
   loadConfig demo_cryptfs ''gocryptfs.conf'' ''wrong'' =
     Exited 8 (''Password: Decrypting master key... cipher: message authentication failed'' @
               newline @ ''Wrong password.'' @ newline) \<and>
   ERREXIT_LOADCONF = 8"
proof -
  have s1: "os_Stat demo_cryptfs ''missing.conf'' =
              Some ''stat missing.conf: no such file or directory''"
    and s2: "os_Stat demo_cryptfs ''gocryptfs.conf'' = None"
    by (simp_all add: demo_cryptfs_def demo_Stat_def)
  have l: "LoadConfFile demo_cryptfs ''gocryptfs.conf'' ''wrong'' =
     Inl ''cipher: message authentication failed''"
    by (simp add: demo_cryptfs_def demo_LoadConfFile_def)
  have i: "Info_Printf demo_cryptfs ''Decrypting master key... '' = ''Decrypting master key... ''"
    by (simp add: Info_Printf_def demo_cryptfs_def)
  have run: "loadConfig demo_cryptfs ''missing.conf'' ''wrong'' =
     Exited 8 ''stat missing.conf: no such file or directory''"
    by (simp add: loadConfig_def s1 ERREXIT_LOADCONF_def)
  note stat_case = loadConfig_failure_report [where env = demo_cryptfs
      and filename = "''missing.conf''"
      and err = "''stat missing.conf: no such file or directory''" and pw = "''wrong''"
      and c = 8 and out = "''stat missing.conf: no such file or directory''"]
  note load_case = loadConfig_failure_report [where env = demo_cryptfs
      and filename = "''gocryptfs.conf''"
      and err = "''cipher: message authentication failed''" and pw = "''wrong''"
      and c = 8 and out = "[]"]
  from s1 stat_case
  have a: "loadConfig demo_cryptfs ''missing.conf'' ''wrong'' =
     Exited ERREXIT_LOADCONF ''stat missing.conf: no such file or directory''"
    by blast
  from run stat_case have c: "ERREXIT_LOADCONF = 8"
    by simp
  from s2 l load_case
  have b: "loadConfig demo_cryptfs ''gocryptfs.conf'' ''wrong'' =
     Exited ERREXIT_LOADCONF
          (''Password: '' @ Info_Printf demo_cryptfs ''Decrypting master key... '' @
           ''cipher: message authentication failed'' @ newline @ ''Wrong password.'' @ newline)"
    by blast
  have b': "loadConfig demo_cryptfs ''gocryptfs.conf'' ''wrong'' =
     Exited 8 (''Password: Decrypting master key... cipher: message authentication failed'' @
               newline @ ''Wrong password.'' @ newline)"
    unfolding b i c by simp
  from a have a': "loadConfig demo_cryptfs ''missing.conf'' ''wrong'' =
     Exited 8 ''stat missing.conf: no such file or directory''"
    by (simp only: c)
  from s1 a' s2 l b' c show ?thesis
    by (intro conjI)
qed

text \<open>
  A wrong password, a config file that does not parse and a missing file give three
  different outputs.
\<close>

theorem loadConfig_output_reveals_cause:
  "loadConfig demo_cryptfs ''gocryptfs.conf'' ''wrong'' =
     Exited 8 (''Password: Decrypting master key... cipher: message authentication failed'' @
               newline @ ''Wrong password.'' @ newline) \<and>
   loadConfig demo_cryptfs ''corrupt.conf'' ''old password'' =
     Exited 8 (''Password: Decrypting master key... unexpected end of JSON input'' @
               newline @ ''Wrong password.'' @ newline) \<and>
   loadConfig demo_cryptfs ''missing.conf'' ''old password'' =
     Exited 8 ''stat missing.conf: no such file or directory'' \<and>
   loadConfig demo_cryptfs ''gocryptfs.conf'' ''wrong'' \<noteq>
     loadConfig demo_cryptfs ''corrupt.conf'' ''old password''"
  by (simp add: loadConfig_def demo_cryptfs_def demo_Stat_def demo_LoadConfFile_def
      Info_Printf_def ERREXIT_LOADCONF_def newline_def)

subsection \<open>C9\<close>

text \<open>
  C9, as the code has it. The test is made on the path GetAttr receives, and on its
  last bytes only. Whatever stands in front of the directory-IV file name, a slash or
  not: when GetAttr returns attributes for such a path, they are the attributes of the
  decrypted parent directory with mode, size and link count overwritten. The answer
  depends on the loopback filesystem only through what it reports for that parent
  directory, so the attributes it holds for the path itself are never reported.
\<close>

theorem GetAttr_suffix_is_virtual:
  "(GetAttr rfs (pre @ DirIVFilename) = Return (Some a', st) \<longrightarrow>
      (\<exists>dir a. decryptPath rfs (if path_Dir (pre @ DirIVFilename) = ''.'' then []
                                  else path_Dir (pre @ DirIVFilename)) = Inr dir \<and>
               loopbackfs_GetAttr rfs dir = (Some a, OK) \<and> IsDir a \<and>
               a' = a\<lparr>Mode := DirIVMode, Size := DirIVLen, Nlink := 1\<rparr> \<and> st = OK)) \<and>
   (decryptPath rfs (if path_Dir (pre @ DirIVFilename) = ''.'' then []
                     else path_Dir (pre @ DirIVFilename)) = Inr dir \<and>
    g dir = loopbackfs_GetAttr rfs dir \<longrightarrow>
      GetAttr (rfs\<lparr>loopbackfs_GetAttr := g\<rparr>) (pre @ DirIVFilename) =
      GetAttr rfs (pre @ DirIVFilename))"
proof (intro conjI impI)
  assume "GetAttr rfs (pre @ DirIVFilename) = Return (Some a', st)"
  then show "\<exists>dir a. decryptPath rfs (if path_Dir (pre @ DirIVFilename) = ''.'' then []
                                  else path_Dir (pre @ DirIVFilename)) = Inr dir \<and>
               loopbackfs_GetAttr rfs dir = (Some a, OK) \<and> IsDir a \<and>
               a' = a\<lparr>Mode := DirIVMode, Size := DirIVLen, Nlink := 1\<rparr> \<and> st = OK"
    by (auto simp: GetAttr_def Let_def Status_Ok_def HasSuffix_append
        split: sum.splits prod.splits if_splits option.splits)
next
  assume "decryptPath rfs (if path_Dir (pre @ DirIVFilename) = ''.'' then []
                     else path_Dir (pre @ DirIVFilename)) = Inr dir \<and>
    g dir = loopbackfs_GetAttr rfs dir"
  then show "GetAttr (rfs\<lparr>loopbackfs_GetAttr := g\<rparr>) (pre @ DirIVFilename) =
      GetAttr rfs (pre @ DirIVFilename)"
    by (simp add: GetAttr_def Let_def HasSuffix_append)
qed

theorem GetAttr_suffix_is_virtual_witness:
  "loopbackfs_GetAttr plain_rfs ''mygocryptfs.diriv'' = (Some (demo_attr 14 0x81A4 5 1), OK) \<and>
   root_only_GetAttr ''mygocryptfs.diriv'' = (None, ENOENT) \<and>
   loopbackfs_GetAttr plain_rfs [] = (Some (demo_attr 2 0x41ED 4096 4), OK) \<and>
   root_only_GetAttr [] = (Some (demo_attr 2 0x41ED 4096 4), OK) \<and>
   GetAttr plain_rfs (''my'' @ DirIVFilename) = Return (Some (demo_attr 2 0x8100 16 1), OK) \<and>
   GetAttr (plain_rfs\<lparr>loopbackfs_GetAttr := root_only_GetAttr\<rparr>) (''my'' @ DirIVFilename) =
     Return (Some (demo_attr 2 0x8100 16 1), OK) \<and>
   demo_attr 2 0x8100 16 1 =
     (demo_attr 2 0x41ED 4096 4)\<lparr>Mode := DirIVMode, Size := DirIVLen, Nlink := 1\<rparr>"
proof -
  have g: "loopbackfs_GetAttr plain_rfs ''mygocryptfs.diriv'' = (Some (demo_attr 14 0x81A4 5 1), OK)"
    "loopbackfs_GetAttr plain_rfs [] = (Some (demo_attr 2 0x41ED 4096 4), OK)"
    by (simp_all add: plain_rfs_def demo_GetAttr_def)
  have r: "root_only_GetAttr ''mygocryptfs.diriv'' = (None, ENOENT)"
    "root_only_GetAttr [] = (Some (demo_attr 2 0x41ED 4096 4), OK)"
    by (simp_all add: root_only_GetAttr_def)
  have p: "path_Dir (''my'' @ DirIVFilename) = ''.''"
    by (simp add: DirIVFilename_def path_Dir_my_diriv)
  have hs: "HasSuffix (''my'' @ DirIVFilename) DirIVFilename"
    by (rule HasSuffix_append)
  have d: "decryptPath plain_rfs [] = Inr []"
    by (simp add: plain_rfs_def)
  have e: "GetAttr plain_rfs (''my'' @ DirIVFilename) = Return (Some (demo_attr 2 0x8100 16 1), OK)"
    using hs p g d by (simp add: GetAttr_def Let_def Status_Ok_def demo_attr_def mode_defs)
  have cd: "(if path_Dir (''my'' @ DirIVFilename) = ''.'' then []
        else path_Dir (''my'' @ DirIVFilename)) = []"
    unfolding p by simp
  note virtual = GetAttr_suffix_is_virtual [where rfs = plain_rfs and pre = "''my''"
      and a' = "demo_attr 2 0x8100 16 1" and st = OK and dir = "[]" and g = root_only_GetAttr]
  from e virtual obtain dir a where
    x: "decryptPath plain_rfs (if path_Dir (''my'' @ DirIVFilename) = ''.'' then []
        else path_Dir (''my'' @ DirIVFilename)) = Inr dir"
    "loopbackfs_GetAttr plain_rfs dir = (Some a, OK)"
    "demo_attr 2 0x8100 16 1 = a\<lparr>Mode := DirIVMode, Size := DirIVLen, Nlink := 1\<rparr>"
    by blast
  from x(1) have "dir = []"
    unfolding cd d by simp
  with x(2) g(2) have "a = demo_attr 2 0x41ED 4096 4"
    by simp
  with x(3) have f: "demo_attr 2 0x8100 16 1 =
     (demo_attr 2 0x41ED 4096 4)\<lparr>Mode := DirIVMode, Size := DirIVLen, Nlink := 1\<rparr>"
    by simp
  have "decryptPath plain_rfs (if path_Dir (''my'' @ DirIVFilename) = ''.'' then []
        else path_Dir (''my'' @ DirIVFilename)) = Inr [] \<and>
        root_only_GetAttr [] = loopbackfs_GetAttr plain_rfs []"
    unfolding cd using d r(2) g(2) by simp
  with virtual have
    "GetAttr (plain_rfs\<lparr>loopbackfs_GetAttr := root_only_GetAttr\<rparr>) (''my'' @ DirIVFilename) =
     GetAttr plain_rfs (''my'' @ DirIVFilename)"
    by blast
  with e have i: "GetAttr (plain_rfs\<lparr>loopbackfs_GetAttr := root_only_GetAttr\<rparr>)
      (''my'' @ DirIVFilename) = Return (Some (demo_attr 2 0x8100 16 1), OK)"
    by simp
  from g(1) r(1) g(2) r(2) e i f show ?thesis
    by (intro conjI)
qed

text \<open>
  An underlying entry whose name ends in the directory-IV file name is not answered
  by the virtual branch when the path it is reached by does not end that way: in
  \<open>tail_rfs\<close> the file \<^verbatim>\<open>mygocryptfs.diriv\<close> is reached as \<^verbatim>\<open>mygocryptfs.dirivE\<close>, and
  GetAttr reports its own attributes, with the size of the encrypted content.
\<close>

theorem GetAttr_underlying_suffix_counterexample:
  "HasSuffix ''mygocryptfs.diriv'' DirIVFilename \<and>
   ''mygocryptfs.diriv'' \<noteq> DirIVFilename \<and>
   loopbackfs_GetAttr tail_rfs ''mygocryptfs.diriv'' = (Some (demo_attr 14 0x81A4 5 1), OK) \<and>
   encryptPath tail_rfs ''mygocryptfs.diriv'' = Inr ''mygocryptfs.dirivE'' \<and>
   decryptPath tail_rfs ''mygocryptfs.dirivE'' = Inr ''mygocryptfs.diriv'' \<and>
   PlainSizeToCipherSize tail_rfs 5 = 4146 \<and>
   GetAttr tail_rfs ''mygocryptfs.dirivE'' = Return (Some (demo_attr 14 0x81A4 4146 1), OK)"
  by (simp add: GetAttr_def tail_rfs_def tail_encrypt_def tail_decrypt_def plain_rfs_def
      demo_GetAttr_def demo_size_def demo_attr_def HasSuffix_def DirIVFilename_def
      status_defs mode_defs)

subsection \<open>C10\<close>

text \<open>
  C10. The synthesized attributes of the directory-IV file are the record \<open>a\<close> of the
  parent directory with the fields \<open>Mode\<close>, \<open>Size\<close> and \<open>Nlink\<close> overwritten: the inode
  number, the owner, the timestamps and every other field are those of the parent.
\<close>

theorem GetAttr_dirIV_frame:
  assumes "HasSuffix relPath DirIVFilename"
    and "decryptPath rfs (if path_Dir relPath = ''.'' then [] else path_Dir relPath) = Inr dir"
    and "loopbackfs_GetAttr rfs dir = (Some a, OK)"
    and "IsDir a" and "Mode a AND S_IXUSR \<noteq> 0"
  shows "\<exists>a'. GetAttr rfs relPath = Return (Some a', OK) \<and>
              a' = a\<lparr>Mode := Mode a', Size := Size a', Nlink := Nlink a'\<rparr> \<and>
              Ino a' = Ino a \<and> Blocks a' = Blocks a \<and>
              Atime a' = Atime a \<and> Mtime a' = Mtime a \<and> Ctime a' = Ctime a \<and>
              Atimensec a' = Atimensec a \<and> Mtimensec a' = Mtimensec a \<and>
              Ctimensec a' = Ctimensec a \<and> Uid a' = Uid a \<and> Gid a' = Gid a \<and>
              Rdev a' = Rdev a \<and> Blksize a' = Blksize a \<and> Padding a' = Padding a"
  using assms
  by (simp add: GetAttr_def Let_def Status_Ok_def)

theorem GetAttr_dirIV_frame_witness:
  "HasSuffix ''gocryptfs.diriv'' DirIVFilename \<and>
   loopbackfs_GetAttr toy_rfs [] = (Some (demo_attr 2 0x41ED 4096 4), OK) \<and>
   IsDir (demo_attr 2 0x41ED 4096 4) \<and> Mode (demo_attr 2 0x41ED 4096 4) AND S_IXUSR \<noteq> 0 \<and>
   (\<exists>a'. GetAttr toy_rfs ''gocryptfs.diriv'' = Return (Some a', OK) \<and>
         Mode a' = 0x8100 \<and> Size a' = 16 \<and> Nlink a' = 1 \<and>
         Ino a' = 2 \<and> Uid a' = 1000 \<and> Gid a' = 1000 \<and> Atime a' = 1470000000 \<and>
         Mtime a' = 1470000001 \<and> Ctime a' = 1470000002 \<and> Blksize a' = 4096)"
proof -
  have s1: "HasSuffix ''gocryptfs.diriv'' DirIVFilename"
    by (simp add: HasSuffix_def DirIVFilename_def)
  have d1: "decryptPath toy_rfs (if path_Dir ''gocryptfs.diriv'' = ''.'' then []
              else path_Dir ''gocryptfs.diriv'') = Inr []"
    by (simp add: path_Dir_root_diriv demo_defs)
  have g1: "loopbackfs_GetAttr toy_rfs [] = (Some (demo_attr 2 0x41ED 4096 4), OK)"
    by (simp add: plain_rfs_def toy_rfs_def demo_GetAttr_def)
  have m1: "IsDir (demo_attr 2 0x41ED 4096 4)" "Mode (demo_attr 2 0x41ED 4096 4) AND S_IXUSR \<noteq> 0"
    by (simp_all add: demo_attr_def mode_defs)
  from GetAttr_dirIV_frame [OF s1 d1 g1 m1] obtain a' where
    r: "GetAttr toy_rfs ''gocryptfs.diriv'' = Return (Some a', OK)"
    and o: "Ino a' = Ino (demo_attr 2 0x41ED 4096 4)" "Uid a' = Uid (demo_attr 2 0x41ED 4096 4)"
      "Gid a' = Gid (demo_attr 2 0x41ED 4096 4)" "Atime a' = Atime (demo_attr 2 0x41ED 4096 4)"
      "Mtime a' = Mtime (demo_attr 2 0x41ED 4096 4)" "Ctime a' = Ctime (demo_attr 2 0x41ED 4096 4)"
      "Blksize a' = Blksize (demo_attr 2 0x41ED 4096 4)"
    by blast
  have "GetAttr toy_rfs ''gocryptfs.diriv'' = Return (Some (demo_attr 2 0x8100 16 1), OK)"
    using s1 d1 g1 m1 by (simp add: GetAttr_def Let_def Status_Ok_def demo_attr_def mode_defs)
  with r have "a' = demo_attr 2 0x8100 16 1"
    by simp
  then have "Mode a' = 0x8100" "Size a' = 16" "Nlink a' = 1"
    by (simp_all add: demo_attr_def)
  with r o s1 g1 m1 show ?thesis by (simp add: demo_attr_def)
qed

end
